theory Spec2Isabelle
  imports Main "HOL-Library.Word" "HOL-Library.Sublist"
begin

section \<open>USB relay controller (relay\_control.py)\<close>

text \<open>
  A shallow embedding of \<^verbatim>\<open>src/relay_control.py\<close>: the protocol constants, the
  class \<^verbatim>\<open>RelayController\<close> (port discovery, the connection scope, the
  request/response transaction, the decoding of the reply) and the part of \<^verbatim>\<open>main\<close>
  that builds the controller and runs one action inside the \<^verbatim>\<open>with\<close> block.

  Python bytes are lists of 8-bit words, Python strings are \<^typ>\<open>string\<close> (ASCII
  text), \<^verbatim>\<open>Optional[T]\<close> is \<^typ>\<open>'a option\<close>. An exception is a value of
  the type \<open>error\<close>; a function that may raise returns \<open>error + 'a\<close> with
  \<open>Inl\<close> for the raised exception. Mutation of \<^verbatim>\<open>self\<close> is explicit state
  passing. Everything the program does to the outside (enumerating ports, opening and
  closing a port, writing, flushing, sleeping, reading) is recorded as a list of events,
  in order. What the outside does in return (which ports exist, which calls fail, which
  bytes arrive) is read from an environment record. Console output
  (\<^verbatim>\<open>print\<close>) is not modelled; the \<^verbatim>\<open>verbose\<close> flag only selects what
  is printed.
\<close>

subsection \<open>Constants (lines 100--117)\<close>

type_synonym byte = "8 word"

definition CMD_OFF :: "byte list" where
  "CMD_OFF = [0xA0, 0x01, 0x00, 0xA1]"

definition CMD_ON :: "byte list" where
  "CMD_ON = [0xA0, 0x01, 0x03, 0xA4]"

definition CMD_TOGGLE :: "byte list" where
  "CMD_TOGGLE = [0xA0, 0x01, 0x04, 0xA5]"

definition CMD_STATUS :: "byte list" where
  "CMD_STATUS = [0xA0, 0x01, 0x05, 0xA6]"

definition RESPONSE_HEADER :: "byte \<times> byte" where
  "RESPONSE_HEADER = (0xA0, 0x01)"

definition STATE_ON :: byte where
  "STATE_ON = 0x01"

definition STATE_OFF :: byte where
  "STATE_OFF = 0x00"

definition CH340_KEYWORDS :: "string list" where
  "CH340_KEYWORDS = [''CH340'', ''CH341'', ''USB-SERIAL'']"

definition USB_KEYWORDS :: "string list" where
  "USB_KEYWORDS = [''USB'']"

subsection \<open>Decoding the reply: \<^verbatim>\<open>_parse_status\<close> (lines 245--262)\<close>

text \<open>
  \<^verbatim>\<open>not response\<close> is true for \<^verbatim>\<open>None\<close> and for the empty bytes object.
  The three index reads happen only after the length test, so they are in range.
  The result is \<^verbatim>\<open>Optional[bool]\<close>: \<open>Some True\<close> is ON, \<open>Some False\<close> is OFF,
  \<open>None\<close> is the indeterminate verdict.
\<close>

definition parse_status :: "byte list option \<Rightarrow> bool option" where
  "parse_status response =
     (case response of
        None \<Rightarrow> None
      | Some bs \<Rightarrow>
          if bs = [] \<or> length bs < 4 then None
          else if bs ! 0 = fst RESPONSE_HEADER \<and> bs ! 1 = snd RESPONSE_HEADER
            then Some (bs ! 2 = STATE_ON)
          else None)"

subsection \<open>Python string operations used by the port scan\<close>

text \<open>
  \<^verbatim>\<open>str.upper()\<close> on ASCII text: each of the letters \<open>a\<close> to \<open>z\<close> moves to
  its capital, every other character stays. Port descriptions are taken
  to be ASCII text; Python's Unicode case mapping of other characters is outside the
  model.
\<close>

definition upper_char :: "char \<Rightarrow> char" where
  "upper_char c =
     (case map_of (zip ''abcdefghijklmnopqrstuvwxyz'' ''ABCDEFGHIJKLMNOPQRSTUVWXYZ'') c of
        None \<Rightarrow> c
      | Some u \<Rightarrow> u)"

definition upper :: "string \<Rightarrow> string" where
  "upper s = map upper_char s"

text \<open>\<^verbatim>\<open>kw in desc\<close> on strings: \<open>kw\<close> occurs in \<open>desc\<close> as a contiguous run.\<close>

fun str_in :: "string \<Rightarrow> string \<Rightarrow> bool" where
  "str_in kw [] = (kw = [])"
| "str_in kw (c # cs) = (prefix kw (c # cs) \<or> str_in kw cs)"

text \<open>\<^verbatim>\<open>any(kw in desc for kw in KEYWORDS)\<close>\<close>

definition any_kw_in :: "string list \<Rightarrow> string \<Rightarrow> bool" where
  "any_kw_in kws desc = list_ex (\<lambda>kw. str_in kw desc) kws"

subsection \<open>Exceptions, events and the environment\<close>

text \<open>
  \<open>RuntimeError msg cause\<close> carries the message and the exception it was raised
  \<^verbatim>\<open>from\<close> (its \<^verbatim>\<open>__cause__\<close>), \<open>SerialException msg\<close> is pyserial's
  transport error with its message (what \<^verbatim>\<open>str(e)\<close> gives).
\<close>

datatype error = RuntimeError string "error option" | SerialException string

text \<open>
  The effects on the outside, in the order the program performs them.
  \<open>EvOpen p baud ok\<close> is one call of \<^verbatim>\<open>serial.Serial(p, baud, ...)\<close>, \<open>ok\<close>
  telling whether the port opened; \<open>EvRead n\<close> is one call of \<^verbatim>\<open>read(n)\<close>.
\<close>

datatype event =
    EvComports
  | EvOpen string nat bool
  | EvClose string
  | EvResetInput
  | EvResetOutput
  | EvWrite "byte list"
  | EvFlush
  | EvSleep
  | EvRead nat

record port_info =
  device :: string
  description :: "string option"

text \<open>
  What the platform and the device do during one run of the program. A failing call is
  given by the message of the \<^verbatim>\<open>SerialException\<close> it raises. The calls that pyserial
  lets fail in the model are the ones the program can meet a transport error in: opening
  a port, \<^verbatim>\<open>reset_input_buffer\<close>, \<^verbatim>\<open>reset_output_buffer\<close>, \<^verbatim>\<open>write\<close>,
  \<^verbatim>\<open>flush\<close>, \<^verbatim>\<open>in_waiting\<close> and \<^verbatim>\<open>read\<close>. \<^verbatim>\<open>close\<close> on an open port
  is taken to succeed.
\<close>

record env =
  env_ports :: "port_info list"                     \<comment> \<open>the result of \<^verbatim>\<open>comports()\<close>\<close>
  env_probe_error :: "string \<Rightarrow> string option"     \<comment> \<open>opening the port in the driver check\<close>
  env_open_error :: "string \<Rightarrow> string option"      \<comment> \<open>opening the port in \<^verbatim>\<open>__enter__\<close>\<close>
  env_stale :: "byte list"                          \<comment> \<open>input already buffered when the port opens\<close>
  env_reset_input_error :: "string option"          \<comment> \<open>\<^verbatim>\<open>reset_input_buffer\<close> of line 204\<close>
  env_reset_output_error :: "string option"         \<comment> \<open>\<^verbatim>\<open>reset_output_buffer\<close> of line 205\<close>
  env_write_error :: "string option"
  env_flush_error :: "string option"
  env_arrived :: "byte list"                        \<comment> \<open>bytes that arrive during the settle wait\<close>
  env_poll_error :: "string option"                 \<comment> \<open>\<^verbatim>\<open>in_waiting\<close> of line 237\<close>
  env_late :: "byte list"                           \<comment> \<open>bytes that arrive between lines 237 and 238\<close>
  env_size_error :: "string option"                 \<comment> \<open>\<^verbatim>\<open>in_waiting\<close> of line 238\<close>
  env_read_error :: "string option"

definition BAUD_RATE :: nat where
  "BAUD_RATE = 9600"

subsection \<open>Port discovery: \<^verbatim>\<open>_auto_detect_port\<close> (lines 151--191)\<close>

text \<open>A candidate is the triple \<^verbatim>\<open>(port.device, port.description, tier)\<close>.\<close>

type_synonym candidate = "string \<times> string option \<times> nat"

definition tier :: "candidate \<Rightarrow> nat" where
  "tier c = (case c of (_, _, t) \<Rightarrow> t)"

text \<open>
  The scan loop of lines 157--166, with the list \<^verbatim>\<open>candidates\<close> as accumulator.
  \<open>scan_desc\<close> is line 159, \<^verbatim>\<open>(port.description or "").upper()\<close>:
  \<^verbatim>\<open>port.description or ""\<close> is the empty string when the description is
  \<^verbatim>\<open>None\<close> (or empty).
\<close>

definition scan_desc :: "port_info \<Rightarrow> string" where
  "scan_desc p = upper (case description p of None \<Rightarrow> [] | Some d \<Rightarrow> d)"

fun scan :: "port_info list \<Rightarrow> candidate list \<Rightarrow> candidate list" where
  "scan [] candidates = candidates"
| "scan (p # ps) candidates =
     (let desc = scan_desc p in
      if any_kw_in CH340_KEYWORDS desc
        then scan ps (candidates @ [(device p, description p, 1)])
      else if any_kw_in USB_KEYWORDS desc
        then scan ps (candidates @ [(device p, description p, 2)])
      else scan ps candidates)"

text \<open>
  Lines 177--178: \<^verbatim>\<open>candidates.sort(key=lambda x: x[2])\<close> and
  \<^verbatim>\<open>candidates[0]\<close>. Python's \<^verbatim>\<open>list.sort\<close> is stable, and the result of a
  stable sort by key is unique, so the stable insertion sort \<^const>\<open>sort_key\<close> returns
  the same list. The list is not empty where the source reads index 0.
\<close>

definition select_candidate :: "candidate list \<Rightarrow> candidate" where
  "select_candidate candidates = hd (sort_key tier candidates)"

definition no_device_message :: string where
  "no_device_message =
     ''No USB relay device found.'' @ [CHR 0x0A] @
     ''  1. Ensure device is connected'' @ [CHR 0x0A] @
     ''  2. Install CH340/CH341 drivers: https://www.wch.cn/downloads/CH341SER_ZIP.html'' @ [CHR 0x0A] @
     ''  3. Check device is not in use''"

definition driver_check_message :: "string \<Rightarrow> string \<Rightarrow> string" where
  "driver_check_message port_name reason =
     ''Driver check failed for '' @ port_name @ '': '' @ reason"

definition auto_detect_port :: "env \<Rightarrow> (error + string) \<times> event list" where
  "auto_detect_port e =
     (let candidates = scan (env_ports e) [] in
      if candidates = [] then (Inl (RuntimeError no_device_message None), [EvComports])
      else
        (case select_candidate candidates of
           (port_name, desc, _) \<Rightarrow>
             (case env_probe_error e port_name of
                Some reason \<Rightarrow>
                  (Inl (RuntimeError (driver_check_message port_name reason)
                          (Some (SerialException reason))),
                   [EvComports, EvOpen port_name BAUD_RATE False])
              | None \<Rightarrow>
                  (Inr port_name,
                   [EvComports, EvOpen port_name BAUD_RATE True, EvClose port_name]))))"

subsection \<open>The controller: \<^verbatim>\<open>__init__\<close>, \<^verbatim>\<open>__enter__\<close>, \<^verbatim>\<open>__exit__\<close> (lines 139--211)\<close>

record serial =
  port :: string
  is_open :: bool
  in_buf :: "byte list"

record controller =
  verbose :: bool
  port_name :: string
  serial_port :: "serial option"

text \<open>
  \<^verbatim>\<open>self.port_name = port or self._auto_detect_port()\<close>: the right operand is
  evaluated when \<^verbatim>\<open>port\<close> is falsy, that is \<^verbatim>\<open>None\<close> or the empty string.
\<close>

definition init :: "env \<Rightarrow> string option \<Rightarrow> bool \<Rightarrow> (error + controller) \<times> event list" where
  "init e port_arg verbose_arg =
     (case (case port_arg of None \<Rightarrow> None | Some p \<Rightarrow> if p = [] then None else Some p) of
        Some p \<Rightarrow>
          (Inr \<lparr>verbose = verbose_arg, port_name = p, serial_port = None\<rparr>, [])
      | None \<Rightarrow>
          (case auto_detect_port e of
             (Inl err, evs) \<Rightarrow> (Inl err, evs)
           | (Inr p, evs) \<Rightarrow>
               (Inr \<lparr>verbose = verbose_arg, port_name = p, serial_port = None\<rparr>, evs)))"

text \<open>
  \<^verbatim>\<open>__enter__\<close>: when \<^verbatim>\<open>serial.Serial(...)\<close> raises, \<^verbatim>\<open>self.serial_port\<close> is
  not assigned. Otherwise the open connection is assigned to \<^verbatim>\<open>self.serial_port\<close>
  first, holding whatever input was already buffered, and the two resets follow: each
  of them may raise, and then the exception leaves \<^verbatim>\<open>__enter__\<close> with the
  connection assigned and open.
\<close>

definition enter :: "env \<Rightarrow> controller \<Rightarrow> (error + unit) \<times> controller \<times> event list" where
  "enter e c =
     (case env_open_error e (port_name c) of
        Some reason \<Rightarrow>
          (Inl (SerialException reason), c, [EvOpen (port_name c) BAUD_RATE False])
      | None \<Rightarrow>
          (let s0 = \<lparr>port = port_name c, is_open = True, in_buf = env_stale e\<rparr>;
               c0 = c\<lparr>serial_port := Some s0\<rparr>
           in
           case env_reset_input_error e of
             Some m \<Rightarrow>
               (Inl (SerialException m), c0,
                [EvOpen (port_name c) BAUD_RATE True, EvResetInput])
           | None \<Rightarrow>
               (let s1 = s0\<lparr>in_buf := []\<rparr>;
                    c1 = c\<lparr>serial_port := Some s1\<rparr>
                in
                case env_reset_output_error e of
                  Some m \<Rightarrow>
                    (Inl (SerialException m), c1,
                     [EvOpen (port_name c) BAUD_RATE True, EvResetInput, EvResetOutput])
                | None \<Rightarrow>
                    (Inr (), c1,
                     [EvOpen (port_name c) BAUD_RATE True, EvResetInput, EvResetOutput]))))"

text \<open>\<^verbatim>\<open>__exit__\<close> returns \<^verbatim>\<open>None\<close>: it never swallows an exception of the body.\<close>

definition exit :: "controller \<Rightarrow> controller \<times> event list" where
  "exit c =
     (case serial_port c of
        None \<Rightarrow> (c, [])
      | Some s \<Rightarrow>
          if is_open s
            then (c\<lparr>serial_port := Some (s\<lparr>is_open := False\<rparr>)\<rparr>, [EvClose (port s)])
          else (c, []))"

subsection \<open>The transaction: \<^verbatim>\<open>_send_command\<close>, \<^verbatim>\<open>_execute_action\<close> (lines 213--303)\<close>

definition send_command ::
  "env \<Rightarrow> controller \<Rightarrow> byte list \<Rightarrow> (error + byte list option) \<times> controller \<times> event list" where
  "send_command e c command =
     (case serial_port c of
        None \<Rightarrow> (Inl (RuntimeError ''Serial port not opened'' None), c, [])
      | Some s \<Rightarrow>
          if \<not> is_open s then (Inl (RuntimeError ''Serial port not opened'' None), c, [])
          else
            (case env_write_error e of
               Some m \<Rightarrow> (Inl (SerialException m), c, [EvWrite command])
             | None \<Rightarrow>
            (case env_flush_error e of
               Some m \<Rightarrow> (Inl (SerialException m), c, [EvWrite command, EvFlush])
             | None \<Rightarrow>
            (let s1 = s\<lparr>in_buf := in_buf s @ env_arrived e\<rparr>;
                 c1 = c\<lparr>serial_port := Some s1\<rparr>;
                 evs = [EvWrite command, EvFlush, EvSleep]
             in
             case env_poll_error e of
               Some m \<Rightarrow> (Inl (SerialException m), c1, evs)
             | None \<Rightarrow>
                 if length (in_buf s1) > 0 then
                   (let s2 = s1\<lparr>in_buf := in_buf s1 @ env_late e\<rparr>;
                        c2 = c\<lparr>serial_port := Some s2\<rparr>
                    in
                    case env_size_error e of
                      Some m \<Rightarrow> (Inl (SerialException m), c2, evs)
                    | None \<Rightarrow>
                        (let n = length (in_buf s2) in
                         case env_read_error e of
                           Some m \<Rightarrow> (Inl (SerialException m), c2, evs @ [EvRead n])
                         | None \<Rightarrow>
                             (Inr (Some (take n (in_buf s2))),
                              c\<lparr>serial_port := Some (s2\<lparr>in_buf := drop n (in_buf s2)\<rparr>)\<rparr>,
                              evs @ [EvRead n])))
                 else (Inr None, c1, evs)))))"

text \<open>
  \<^verbatim>\<open>_execute_action\<close>: the \<^verbatim>\<open>action\<close> text is only printed, so the model keeps
  the command alone.
\<close>

definition execute_action ::
  "env \<Rightarrow> controller \<Rightarrow> byte list \<Rightarrow> (error + bool option) \<times> controller \<times> event list" where
  "execute_action e c command =
     (case send_command e c command of
        (Inl err, c', evs) \<Rightarrow> (Inl err, c', evs)
      | (Inr response, c', evs) \<Rightarrow> (Inr (parse_status response), c', evs))"

definition turn_on :: "env \<Rightarrow> controller \<Rightarrow> (error + bool option) \<times> controller \<times> event list" where
  "turn_on e c = execute_action e c CMD_ON"

definition turn_off :: "env \<Rightarrow> controller \<Rightarrow> (error + bool option) \<times> controller \<times> event list" where
  "turn_off e c = execute_action e c CMD_OFF"

definition toggle :: "env \<Rightarrow> controller \<Rightarrow> (error + bool option) \<times> controller \<times> event list" where
  "toggle e c = execute_action e c CMD_TOGGLE"

definition query_status :: "env \<Rightarrow> controller \<Rightarrow> (error + bool option) \<times> controller \<times> event list" where
  "query_status e c = execute_action e c CMD_STATUS"

subsection \<open>The command line: \<^verbatim>\<open>main\<close> (lines 333--357)\<close>

text \<open>
  \<^verbatim>\<open>argparse\<close> admits the four actions only (\<^verbatim>\<open>choices\<close>), so the parsed
  arguments are an action, an optional port and the verbose flag.
\<close>

datatype action = On | Off | Toggle | Status

record args =
  arg_action :: action
  arg_port :: "string option"
  arg_verbose :: bool

definition dispatch ::
  "action \<Rightarrow> env \<Rightarrow> controller \<Rightarrow> (error + bool option) \<times> controller \<times> event list" where
  "dispatch a =
     (case a of On \<Rightarrow> turn_on | Off \<Rightarrow> turn_off | Toggle \<Rightarrow> toggle | Status \<Rightarrow> query_status)"

text \<open>
  \<^verbatim>\<open>with controller: body\<close>: when \<^verbatim>\<open>__enter__\<close> raises, neither the body nor
  \<^verbatim>\<open>__exit__\<close> runs. Otherwise \<^verbatim>\<open>__exit__\<close> runs after the body, whether the
  body returned or raised, and the body's outcome is the outcome of the block.
\<close>

definition with_controller ::
  "env \<Rightarrow> controller \<Rightarrow> (controller \<Rightarrow> (error + 'a) \<times> controller \<times> event list)
     \<Rightarrow> (error + 'a) \<times> controller \<times> event list" where
  "with_controller e c body =
     (case enter e c of
        (Inl err, c1, evs1) \<Rightarrow> (Inl err, c1, evs1)
      | (Inr _, c1, evs1) \<Rightarrow>
          (case body c1 of
             (r, c2, evs2) \<Rightarrow>
               (case exit c2 of (c3, evs3) \<Rightarrow> (r, c3, evs1 @ evs2 @ evs3))))"

text \<open>
  \<^verbatim>\<open>main\<close> returns 1 for a \<^verbatim>\<open>RuntimeError\<close> and for any other exception, 0
  otherwise. The model also returns the controller, when one was built, and the events.
\<close>

definition main :: "env \<Rightarrow> args \<Rightarrow> int \<times> controller option \<times> event list" where
  "main e a =
     (case init e (arg_port a) (arg_verbose a) of
        (Inl err, evs) \<Rightarrow> (1, None, evs)
      | (Inr c, evs) \<Rightarrow>
          (case with_controller e c (dispatch (arg_action a) e) of
             (Inl err, c', evs') \<Rightarrow> (1, Some c', evs @ evs')
           | (Inr _, c', evs') \<Rightarrow> (0, Some c', evs @ evs')))"

subsection \<open>Observations on controllers and event lists\<close>

text \<open>The connection of a controller is open: the test of lines 210 and 223.\<close>

definition connected :: "controller \<Rightarrow> bool" where
  "connected c = (case serial_port c of None \<Rightarrow> False | Some s \<Rightarrow> is_open s)"

text \<open>The frames handed to \<^verbatim>\<open>write\<close>, in order.\<close>

fun written :: "event list \<Rightarrow> byte list list" where
  "written [] = []"
| "written (EvWrite bs # evs) = bs # written evs"
| "written (_ # evs) = written evs"

text \<open>The ports of the calls of \<^verbatim>\<open>serial.Serial\<close>, whether they opened or not.\<close>

fun open_attempts :: "event list \<Rightarrow> string list" where
  "open_attempts [] = []"
| "open_attempts (EvOpen p _ _ # evs) = p # open_attempts evs"
| "open_attempts (_ # evs) = open_attempts evs"

text \<open>
  The ports left open after a list of events, given those open before: a successful
  open adds the port, a close removes one occurrence of it.
\<close>

fun still_open :: "string list \<Rightarrow> event list \<Rightarrow> string list" where
  "still_open ps [] = ps"
| "still_open ps (EvOpen p _ ok # evs) = still_open (if ok then p # ps else ps) evs"
| "still_open ps (EvClose p # evs) = still_open (remove1 p ps) evs"
| "still_open ps (_ # evs) = still_open ps evs"

subsection \<open>Sample inputs\<close>

text \<open>
  An environment in which no port is listed, no call fails and no byte arrives, and a
  controller whose connection to \<open>COM5\<close> is open with an empty input buffer. The
  examples below vary them.
\<close>

definition quiet_env :: env where
  "quiet_env =
     \<lparr>env_ports = [], env_probe_error = (\<lambda>_. None), env_open_error = (\<lambda>_. None),
      env_stale = [], env_reset_input_error = None, env_reset_output_error = None,
      env_write_error = None, env_flush_error = None, env_arrived = [],
      env_poll_error = None, env_late = [], env_size_error = None, env_read_error = None\<rparr>"

definition open_controller :: controller where
  "open_controller =
     \<lparr>verbose = False, port_name = ''COM5'',
      serial_port = Some \<lparr>port = ''COM5'', is_open = True, in_buf = []\<rparr>\<rparr>"

definition sample_ports :: "port_info list" where
  "sample_ports =
     [\<lparr>device = ''COM1'', description = None\<rparr>,
      \<lparr>device = ''COM3'', description = Some ''Generic usb Serial''\<rparr>,
      \<lparr>device = ''COM4'', description = Some ''USB-SERIAL ch340''\<rparr>,
      \<lparr>device = ''COM7'', description = Some ''Bluetooth link''\<rparr>]"

section \<open>Properties\<close>

subsection \<open>Decoding\<close>

lemma parse_status_Some_iff:
  "parse_status response = Some b \<longleftrightarrow>
     (\<exists>bs. response = Some bs \<and> 4 \<le> length bs \<and> bs ! 0 = 0xA0 \<and> bs ! 1 = 0x01
        \<and> b = (bs ! 2 = 0x01))"
  by (auto simp: parse_status_def RESPONSE_HEADER_def STATE_ON_def split: option.splits)

text \<open>
  Claim C1 says that a reply with a matching header and a state byte other than
  \<open>0x00\<close> and \<open>0x01\<close>, such as \<open>[0xA0, 0x01, 0x02, x]\<close>, decodes to UNKNOWN.
  The code compares the state byte with \<open>STATE_ON\<close> only: on the reply
  \<open>A0 01 02 00\<close> it returns \<open>False\<close> (OFF). The constant \<open>STATE_OFF\<close> is
  declared with the response format and never consulted.
\<close>

theorem parse_status_state_byte_2:
  "parse_status (Some [0xA0, 0x01, 0x02, 0x00]) = Some False"
  by (simp add: parse_status_def RESPONSE_HEADER_def STATE_ON_def)

subsection \<open>The frames written\<close>

lemma written_send_command:
  "written (snd (snd (send_command e c cmd))) = (if connected c then [cmd] else [])"
  by (simp add: send_command_def connected_def Let_def split: option.splits)

lemma written_execute_action:
  "written (snd (snd (execute_action e c cmd))) = (if connected c then [cmd] else [])"
  using written_send_command [of e c cmd]
  by (auto simp: execute_action_def split: prod.splits sum.splits)

text \<open>
  Claim C2: the four command constants are the literal frames \<open>A0 01 00 A1\<close> (OFF),
  \<open>A0 01 03 A4\<close> (ON), \<open>A0 01 04 A5\<close> (TOGGLE) and \<open>A0 01 05 A6\<close> (STATUS). Whatever the
  environment and the state of the controller, each of the four public operations hands
  to \<^verbatim>\<open>write\<close> exactly its own frame, once, when the connection is open, and nothing
  at all when it is not: no other byte sequence is ever sent.
\<close>

theorem command_frames:
  "CMD_OFF = [0xA0, 0x01, 0x00, 0xA1] \<and> CMD_ON = [0xA0, 0x01, 0x03, 0xA4]
   \<and> CMD_TOGGLE = [0xA0, 0x01, 0x04, 0xA5] \<and> CMD_STATUS = [0xA0, 0x01, 0x05, 0xA6]
   \<and> written (snd (snd (turn_off e c))) = (if connected c then [[0xA0, 0x01, 0x00, 0xA1]] else [])
   \<and> written (snd (snd (turn_on e c))) = (if connected c then [[0xA0, 0x01, 0x03, 0xA4]] else [])
   \<and> written (snd (snd (toggle e c))) = (if connected c then [[0xA0, 0x01, 0x04, 0xA5]] else [])
   \<and> written (snd (snd (query_status e c))) =
       (if connected c then [[0xA0, 0x01, 0x05, 0xA6]] else [])"
  by (simp add: turn_off_def turn_on_def toggle_def query_status_def written_execute_action
      CMD_OFF_def CMD_ON_def CMD_TOGGLE_def CMD_STATUS_def)

subsection \<open>The transaction after the settle wait\<close>

text \<open>
  Claim C3: on an open connection whose write, flush and first \<^verbatim>\<open>in_waiting\<close> succeed,
  the transaction writes the frame once, flushes and sleeps once. If no byte is buffered
  after the wait, it returns \<^verbatim>\<open>None\<close> and the verdict is indeterminate, with no read
  and no second write (no blocking, no retry). If bytes are buffered, one \<^verbatim>\<open>read\<close>
  takes every byte buffered at that moment, however many, and the verdict is
  \<open>parse_status\<close> of that whole buffer.
\<close>

theorem send_command_after_settle:
  assumes "serial_port c = Some s" and "is_open s"
    and "env_write_error e = None" and "env_flush_error e = None" and "env_poll_error e = None"
  shows "(in_buf s @ env_arrived e = [] \<longrightarrow>
            send_command e c cmd = (Inr None, c, [EvWrite cmd, EvFlush, EvSleep])
          \<and> execute_action e c cmd = (Inr None, c, [EvWrite cmd, EvFlush, EvSleep]))
       \<and> (in_buf s @ env_arrived e \<noteq> [] \<and> env_size_error e = None \<and> env_read_error e = None \<longrightarrow>
            (let buffered = in_buf s @ env_arrived e @ env_late e;
                 c' = c\<lparr>serial_port := Some (s\<lparr>in_buf := []\<rparr>)\<rparr>;
                 evs = [EvWrite cmd, EvFlush, EvSleep, EvRead (length buffered)]
             in send_command e c cmd = (Inr (Some buffered), c', evs)
              \<and> execute_action e c cmd = (Inr (parse_status (Some buffered)), c', evs)))"
  using assms
  by (auto simp: send_command_def execute_action_def Let_def parse_status_def)

theorem send_command_after_settle_witness:
  "execute_action quiet_env open_controller CMD_STATUS =
     (Inr None, open_controller, [EvWrite CMD_STATUS, EvFlush, EvSleep])
   \<and> execute_action (quiet_env\<lparr>env_arrived := [0xA0, 0x01, 0x01, 0xA2, 0x00, 0x00]\<rparr>)
       open_controller CMD_ON =
     (Inr (Some True), open_controller, [EvWrite CMD_ON, EvFlush, EvSleep, EvRead 6])
   \<and> execute_action (quiet_env\<lparr>env_arrived := [0xA0, 0x01]\<rparr>) open_controller CMD_TOGGLE =
     (Inr None, open_controller, [EvWrite CMD_TOGGLE, EvFlush, EvSleep, EvRead 2])"
  using
    send_command_after_settle [of open_controller
      "\<lparr>port = ''COM5'', is_open = True, in_buf = []\<rparr>" quiet_env CMD_STATUS]
    send_command_after_settle [of open_controller
      "\<lparr>port = ''COM5'', is_open = True, in_buf = []\<rparr>"
      "quiet_env\<lparr>env_arrived := [0xA0, 0x01, 0x01, 0xA2, 0x00, 0x00]\<rparr>" CMD_ON]
    send_command_after_settle [of open_controller
      "\<lparr>port = ''COM5'', is_open = True, in_buf = []\<rparr>"
      "quiet_env\<lparr>env_arrived := [0xA0, 0x01]\<rparr>" CMD_TOGGLE]
  by (simp add: quiet_env_def open_controller_def parse_status_def RESPONSE_HEADER_def
      STATE_ON_def Let_def)

subsection \<open>The port scan\<close>

lemma scan_append: "scan ps (acc @ acc') = acc @ scan ps acc'"
  by (induction ps arbitrary: acc') (simp_all add: Let_def)

lemma scan_singleton_acc: "scan ps [x] = x # scan ps []"
  using scan_append [of ps "[x]" "[]"] by simp

lemma scan_Cons: "scan (p # ps) [] = scan [p] [] @ scan ps []"
  by (simp add: Let_def scan_singleton_acc)

lemma scan_concat: "scan ps [] = concat (map (\<lambda>p. scan [p] []) ps)"
proof (induction ps)
  case Nil
  show ?case by simp
next
  case (Cons p ps)
  then show ?case
    using scan_Cons [of p ps] by simp
qed

lemma scan_no_match:
  "\<forall>p\<in>set ps. \<not> any_kw_in CH340_KEYWORDS (scan_desc p) \<and> \<not> any_kw_in USB_KEYWORDS (scan_desc p)
     \<Longrightarrow> scan ps acc = acc"
  by (induction ps arbitrary: acc) (simp_all add: Let_def)

lemmas scan_eval =
  scan_desc_def upper_def upper_char_def any_kw_in_def CH340_KEYWORDS_def USB_KEYWORDS_def

lemma str_in_sublist: "str_in kw d = sublist kw d"
  by (induction d) (auto simp: sublist_Cons_right)

lemma any_kw_in_sublist: "any_kw_in kws d = (\<exists>kw\<in>set kws. sublist kw d)"
  by (simp add: any_kw_in_def list_ex_iff str_in_sublist)

lemma scan_single:
  "scan [p] [] =
     (if any_kw_in CH340_KEYWORDS (scan_desc p) then [(device p, description p, 1)]
      else if any_kw_in USB_KEYWORDS (scan_desc p) then [(device p, description p, 2)]
      else [])"
  by (simp add: Let_def)

lemma in_scan_iff: "x \<in> set (scan ps []) \<longleftrightarrow> (\<exists>q\<in>set ps. x \<in> set (scan [q] []))"
  by (subst scan_concat) auto

lemma length_scan_single: "length (scan [p] []) \<le> 1"
  by (simp add: Let_def)

lemma length_scan: "length (scan ps []) \<le> length ps"
proof (induction ps)
  case Nil
  show ?case by simp
next
  case (Cons p ps)
  have "length (scan (p # ps) []) = length (scan [p] []) + length (scan ps [])"
    by (simp only: scan_Cons [of p ps] length_append)
  then show ?case
    using Cons length_scan_single [of p] by simp
qed

text \<open>
  Claim C5: the description of a port is uppercased (an absent description counts as
  empty) and searched for the keywords. When a chipset keyword (\<open>CH340\<close>, \<open>CH341\<close>,
  \<open>USB-SERIAL\<close>) occurs in it, the port yields one candidate of tier 1; when none does
  and \<open>USB\<close> occurs (the \<^verbatim>\<open>elif\<close> branch), one candidate of tier 2; when neither
  set matches, no candidate at all, which is the case of an absent or empty
  description. The candidates of a port list are those of its ports, in order. Two
  descriptions that agree after uppercasing are classified alike.
\<close>

theorem port_classification:
  "scan_desc p = upper (case description p of None \<Rightarrow> [] | Some d \<Rightarrow> d)
   \<and> CH340_KEYWORDS = [''CH340'', ''CH341'', ''USB-SERIAL''] \<and> USB_KEYWORDS = [''USB'']
   \<and> scan ps [] = concat (map (\<lambda>q. scan [q] []) ps)
   \<and> ((\<exists>kw\<in>set CH340_KEYWORDS. sublist kw (scan_desc p))
        \<longrightarrow> scan [p] [] = [(device p, description p, 1)])
   \<and> (\<not> (\<exists>kw\<in>set CH340_KEYWORDS. sublist kw (scan_desc p))
        \<and> (\<exists>kw\<in>set USB_KEYWORDS. sublist kw (scan_desc p))
        \<longrightarrow> scan [p] [] = [(device p, description p, 2)])
   \<and> (\<not> (\<exists>kw\<in>set CH340_KEYWORDS. sublist kw (scan_desc p))
        \<and> \<not> (\<exists>kw\<in>set USB_KEYWORDS. sublist kw (scan_desc p))
        \<longrightarrow> scan [p] [] = [])
   \<and> (description p = None \<or> description p = Some [] \<longrightarrow> scan [p] [] = [])
   \<and> (upper d = upper d'
        \<longrightarrow> map tier (scan [p\<lparr>description := Some d\<rparr>] [])
            = map tier (scan [p\<lparr>description := Some d'\<rparr>] []))"
proof -
  have desc: "scan_desc p = upper (case description p of None \<Rightarrow> [] | Some d \<Rightarrow> d)"
    by (simp add: scan_desc_def)
  have kws: "CH340_KEYWORDS = [''CH340'', ''CH341'', ''USB-SERIAL'']" "USB_KEYWORDS = [''USB'']"
    by (simp_all add: CH340_KEYWORDS_def USB_KEYWORDS_def)
  have tier1: "(\<exists>kw\<in>set CH340_KEYWORDS. sublist kw (scan_desc p))
        \<longrightarrow> scan [p] [] = [(device p, description p, 1)]"
    unfolding any_kw_in_sublist [symmetric] by (simp add: scan_single del: scan.simps)
  have tier2: "\<not> (\<exists>kw\<in>set CH340_KEYWORDS. sublist kw (scan_desc p))
        \<and> (\<exists>kw\<in>set USB_KEYWORDS. sublist kw (scan_desc p))
        \<longrightarrow> scan [p] [] = [(device p, description p, 2)]"
    unfolding any_kw_in_sublist [symmetric] by (simp add: scan_single del: scan.simps)
  have excluded: "\<not> (\<exists>kw\<in>set CH340_KEYWORDS. sublist kw (scan_desc p))
        \<and> \<not> (\<exists>kw\<in>set USB_KEYWORDS. sublist kw (scan_desc p))
        \<longrightarrow> scan [p] [] = []"
    unfolding any_kw_in_sublist [symmetric] by (simp add: scan_single del: scan.simps)
  have empty: "description p = None \<or> description p = Some [] \<longrightarrow> scan [p] [] = []"
    by (auto simp: scan_single scan_eval simp del: scan.simps)
  have insensitive: "upper d = upper d'
        \<longrightarrow> map tier (scan [p\<lparr>description := Some d\<rparr>] [])
            = map tier (scan [p\<lparr>description := Some d'\<rparr>] [])"
    by (simp add: scan_single scan_desc_def tier_def del: scan.simps)
  from desc kws scan_concat [of ps] tier1 tier2 excluded empty insensitive show ?thesis
    by (intro conjI)
qed

theorem port_classification_witness:
  "scan sample_ports [] =
     [(''COM3'', Some ''Generic usb Serial'', 2), (''COM4'', Some ''USB-SERIAL ch340'', 1)]"
  using port_classification [of "\<lparr>device = ''COM3'', description = Some ''Generic usb Serial''\<rparr>"
      sample_ports "''a''" "''A''"]
  by (simp add: sample_ports_def scan_eval Let_def)

text \<open>
  Claim C10: a port contributes at most one candidate. The chipset keywords are tested
  first: a port whose description matches a chipset keyword contributes exactly the
  tier-1 candidate, and no tier-2 candidate with its device and description occurs in the
  candidates of any port list. A description with \<open>USB-SERIAL\<close> in it matches both
  keyword sets, so it is of this kind.
\<close>

theorem one_candidate_per_port:
  "length (scan [p] []) \<le> 1
   \<and> scan ps [] = concat (map (\<lambda>q. scan [q] []) ps)
   \<and> length (scan ps []) \<le> length ps
   \<and> (any_kw_in CH340_KEYWORDS (scan_desc p)
        \<longrightarrow> scan [p] [] = [(device p, description p, 1)]
          \<and> (device p, description p, 2) \<notin> set (scan ps []))
   \<and> (sublist ''USB-SERIAL'' (scan_desc p)
        \<longrightarrow> any_kw_in CH340_KEYWORDS (scan_desc p) \<and> any_kw_in USB_KEYWORDS (scan_desc p))"
proof -
  have tier1: "(device p, description p, 2) \<notin> set (scan ps [])"
    if chip: "any_kw_in CH340_KEYWORDS (scan_desc p)"
  proof
    assume "(device p, description p, 2) \<in> set (scan ps [])"
    then obtain q where "q \<in> set ps" and q: "(device p, description p, 2) \<in> set (scan [q] [])"
      using in_scan_iff by blast
    from q have "description q = description p \<and> \<not> any_kw_in CH340_KEYWORDS (scan_desc q)"
      by (auto simp: scan_single simp del: scan.simps split: if_splits)
    then show False
      using chip by (auto simp: scan_desc_def)
  qed
  have "sublist ''USB'' ''USB-SERIAL''"
    by (rule prefix_imp_sublist) simp
  then have usb: "sublist ''USB-SERIAL'' (scan_desc p)
        \<longrightarrow> any_kw_in CH340_KEYWORDS (scan_desc p) \<and> any_kw_in USB_KEYWORDS (scan_desc p)"
    using sublist_order.order_trans [of "''USB''" "''USB-SERIAL''" "scan_desc p"]
    by (auto simp: any_kw_in_sublist CH340_KEYWORDS_def USB_KEYWORDS_def)
  have chip: "any_kw_in CH340_KEYWORDS (scan_desc p)
        \<longrightarrow> scan [p] [] = [(device p, description p, 1)]
          \<and> (device p, description p, 2) \<notin> set (scan ps [])"
    using tier1 by (simp add: scan_single del: scan.simps)
  from length_scan_single [of p] scan_concat [of ps] length_scan [of ps] chip usb
  show ?thesis
    by (intro conjI)
qed

theorem one_candidate_per_port_witness:
  "scan [\<lparr>device = ''COM4'', description = Some ''usb-serial adapter''\<rparr>] [] =
     [(''COM4'', Some ''usb-serial adapter'', 1)]"
  using one_candidate_per_port [of "\<lparr>device = ''COM4'', description = Some ''usb-serial adapter''\<rparr>" "[]"]
  by (simp add: scan_eval)

subsection \<open>Selecting among the candidates\<close>

lemma hd_insort_key:
  "hd (insort_key f x xs) = (if xs = [] \<or> f x \<le> f (hd xs) then x else hd xs)"
  by (cases xs) auto

text \<open>
  The head of a stably sorted list is the first element of the input whose key is least:
  everything before it has a strictly greater key, everything after it a key at least
  as great.
\<close>

lemma hd_sort_key_first_least:
  "xs \<noteq> [] \<Longrightarrow>
     \<exists>pre post. xs = pre @ hd (sort_key f xs) # post
       \<and> (\<forall>y\<in>set pre. f (hd (sort_key f xs)) < f y)
       \<and> (\<forall>y\<in>set post. f (hd (sort_key f xs)) \<le> f y)"
proof (induction xs)
  case Nil
  then show ?case by simp
next
  case (Cons x xs)
  show ?case
  proof (cases "xs = []")
    case True
    then show ?thesis
      by (auto intro!: exI [of _ "[]"])
  next
    case False
    let ?s = "hd (sort_key f xs)"
    from Cons.IH [OF False] obtain pre post where
      split: "xs = pre @ ?s # post" and
      before: "\<forall>y\<in>set pre. f ?s < f y" and
      after: "\<forall>y\<in>set post. f ?s \<le> f y"
      by blast
    have nonempty: "sort_key f xs \<noteq> []"
      using False by (metis set_sort set_empty)
    show ?thesis
    proof (cases "f x \<le> f ?s")
      case True
      then have hd_x: "hd (sort_key f (x # xs)) = x"
        by (simp add: hd_insort_key)
      have "\<forall>y\<in>set xs. f x \<le> f y"
      proof
        fix y assume "y \<in> set xs"
        then have "y \<in> set pre \<or> y = ?s \<or> y \<in> set post"
          using split by (metis Un_iff set_ConsD set_append)
        then show "f x \<le> f y"
          using True before after by force
      qed
      then have "x # xs = [] @ x # xs \<and> (\<forall>y\<in>set []. f x < f y) \<and> (\<forall>y\<in>set xs. f x \<le> f y)"
        by simp
      then show ?thesis
        unfolding hd_x by blast
    next
      case False
      then have hd_s: "hd (sort_key f (x # xs)) = ?s"
        using nonempty by (simp add: hd_insort_key)
      have "x # xs = (x # pre) @ ?s # post"
        using split by simp
      moreover have "\<forall>y\<in>set (x # pre). f ?s < f y"
        using False before by auto
      ultimately show ?thesis
        unfolding hd_s using after by blast
    qed
  qed
qed

text \<open>
  Claim C4: for every non-empty candidate list the selected candidate is a member of
  the list, its tier is the lowest of the list, and it is the earliest candidate of that
  tier: every candidate before it in enumeration order has a strictly higher tier. In
  particular a candidate of tier 1 wins over candidates of tier 2 wherever it stands.
  When the driver check passes, the resolver returns the device of that candidate.
\<close>

theorem select_candidate_first_lowest_tier:
  assumes "candidates \<noteq> []"
  shows "select_candidate candidates \<in> set candidates
       \<and> (\<forall>c\<in>set candidates. tier (select_candidate candidates) \<le> tier c)
       \<and> (\<exists>pre post. candidates = pre @ select_candidate candidates # post
             \<and> (\<forall>c\<in>set pre. tier (select_candidate candidates) < tier c))
       \<and> ((\<exists>c\<in>set candidates. tier c = 1) \<and> (\<forall>c\<in>set candidates. 1 \<le> tier c)
             \<longrightarrow> tier (select_candidate candidates) = 1)
       \<and> (scan (env_ports e) [] = candidates
             \<and> env_probe_error e (fst (select_candidate candidates)) = None
             \<longrightarrow> fst (auto_detect_port e) = Inr (fst (select_candidate candidates)))"
proof -
  let ?sel = "select_candidate candidates"
  from hd_sort_key_first_least [OF assms, of tier] obtain pre post where
    split: "candidates = pre @ ?sel # post" and
    before: "\<forall>c\<in>set pre. tier ?sel < tier c" and
    after: "\<forall>c\<in>set post. tier ?sel \<le> tier c"
    unfolding select_candidate_def by blast
  have mem: "?sel \<in> set candidates"
    using split by (metis in_set_conv_decomp)
  have least: "\<forall>c\<in>set candidates. tier ?sel \<le> tier c"
  proof
    fix c assume "c \<in> set candidates"
    then have "c \<in> set pre \<or> c = ?sel \<or> c \<in> set post"
      using split by (metis Un_iff set_ConsD set_append)
    then show "tier ?sel \<le> tier c"
      using before after by force
  qed
  have one: "(\<exists>c\<in>set candidates. tier c = 1) \<and> (\<forall>c\<in>set candidates. 1 \<le> tier c)
               \<longrightarrow> tier ?sel = 1"
    using least mem by (metis le_antisym)
  have resolver: "scan (env_ports e) [] = candidates \<and> env_probe_error e (fst ?sel) = None
                    \<longrightarrow> fst (auto_detect_port e) = Inr (fst ?sel)"
    using assms by (auto simp: auto_detect_port_def Let_def split: prod.splits)
  from mem least split before one resolver show ?thesis
    by blast
qed

theorem select_candidate_witness:
  "select_candidate
     [(''portB'', Some ''Generic USB Serial'', 2), (''portA'', Some ''CH340 serial'', 1)]
     = (''portA'', Some ''CH340 serial'', 1)
   \<and> select_candidate
     [(''portA'', Some ''CH340 serial'', 1), (''portB'', Some ''Generic USB Serial'', 2)]
     = (''portA'', Some ''CH340 serial'', 1)
   \<and> select_candidate
     [(''portB'', Some ''Generic USB Serial'', 2), (''portA'', Some ''CH340 serial'', 1),
      (''portC'', Some ''CH341 serial'', 1)]
     = (''portA'', Some ''CH340 serial'', 1)"
  using select_candidate_first_lowest_tier
    [of "[(''portB'', Some ''Generic USB Serial'', 2), (''portA'', Some ''CH340 serial'', 1)]"
      quiet_env]
  by (simp add: select_candidate_def tier_def)

subsection \<open>Failures of the resolver\<close>

text \<open>
  Claim C6: when the port list is empty or no port of it matches either keyword set, the
  resolver raises the ``no device'' \<^verbatim>\<open>RuntimeError\<close>. The only effect is the
  enumeration: no port is opened, so the driver check is never reached. The same holds
  for the constructor called without a port, and \<^verbatim>\<open>main\<close> then returns 1 with no
  controller built.
\<close>

theorem no_candidates_discovery_failure:
  assumes "\<forall>p\<in>set (env_ports e).
             \<not> any_kw_in CH340_KEYWORDS (scan_desc p) \<and> \<not> any_kw_in USB_KEYWORDS (scan_desc p)"
  shows "auto_detect_port e = (Inl (RuntimeError no_device_message None), [EvComports])
       \<and> open_attempts (snd (auto_detect_port e)) = []
       \<and> init e None v = (Inl (RuntimeError no_device_message None), [EvComports])
       \<and> main e \<lparr>arg_action = a, arg_port = None, arg_verbose = v\<rparr> = (1, None, [EvComports])"
proof -
  have "scan (env_ports e) [] = []"
    using assms by (rule scan_no_match)
  then have "auto_detect_port e = (Inl (RuntimeError no_device_message None), [EvComports])"
    by (simp add: auto_detect_port_def)
  then show ?thesis
    by (simp add: init_def main_def)
qed

theorem no_candidates_discovery_failure_witness:
  "auto_detect_port quiet_env = (Inl (RuntimeError no_device_message None), [EvComports])
   \<and> auto_detect_port
       (quiet_env\<lparr>env_ports := [\<lparr>device = ''COM1'', description = None\<rparr>,
          \<lparr>device = ''COM2'', description = Some ''Bluetooth link''\<rparr>]\<rparr>) =
     (Inl (RuntimeError no_device_message None), [EvComports])"
  using
    no_candidates_discovery_failure [of quiet_env False On]
    no_candidates_discovery_failure
      [of "quiet_env\<lparr>env_ports := [\<lparr>device = ''COM1'', description = None\<rparr>,
          \<lparr>device = ''COM2'', description = Some ''Bluetooth link''\<rparr>]\<rparr>" False On]
  by (simp add: quiet_env_def scan_eval)

text \<open>
  Claim C8: when opening the selected candidate in the driver check raises a
  \<^verbatim>\<open>SerialException\<close>, the resolver raises a \<^verbatim>\<open>RuntimeError\<close> whose message is
  ``Driver check failed for'', the port, and the text of the transport error, and whose
  cause is that transport error. It differs from the ``no device'' error, and the port
  was tried once, at the baud rate 9600.
\<close>

theorem probe_failure_is_access_error:
  assumes "scan (env_ports e) [] \<noteq> []"
    and "select_candidate (scan (env_ports e) []) = (pn, d, t)"
    and "env_probe_error e pn = Some reason"
  shows "auto_detect_port e =
           (Inl (RuntimeError (driver_check_message pn reason) (Some (SerialException reason))),
            [EvComports, EvOpen pn BAUD_RATE False])
       \<and> RuntimeError (driver_check_message pn reason) (Some (SerialException reason))
           \<noteq> RuntimeError no_device_message None
       \<and> driver_check_message pn reason \<noteq> no_device_message
       \<and> suffix reason (driver_check_message pn reason)
       \<and> BAUD_RATE = 9600"
  using assms
  by (simp add: auto_detect_port_def driver_check_message_def no_device_message_def suffix_def
      BAUD_RATE_def)

theorem probe_failure_is_access_error_witness:
  "auto_detect_port
     (quiet_env\<lparr>env_ports := sample_ports,
        env_probe_error := (\<lambda>p. if p = ''COM4'' then Some ''Access is denied.'' else None)\<rparr>) =
     (Inl (RuntimeError ''Driver check failed for COM4: Access is denied.''
             (Some (SerialException ''Access is denied.''))),
      [EvComports, EvOpen ''COM4'' 9600 False])"
  using probe_failure_is_access_error
    [of "quiet_env\<lparr>env_ports := sample_ports,
           env_probe_error := (\<lambda>p. if p = ''COM4'' then Some ''Access is denied.'' else None)\<rparr>"
      "''COM4''" "Some ''USB-SERIAL ch340''" 1 "''Access is denied.''"]
  by (simp add: quiet_env_def sample_ports_def scan_eval Let_def select_candidate_def tier_def
      driver_check_message_def BAUD_RATE_def)

subsection \<open>An explicit port\<close>

text \<open>
  Claim C7 says that discovery is bypassed for every explicitly supplied port. The
  constructor tests the argument for truth (\<^verbatim>\<open>port or ...\<close>), and the empty string is
  false: with \<^verbatim>\<open>port=""\<close> the ports are enumerated and, here, the ``no device'' error
  is raised instead of a controller for the port \<^verbatim>\<open>""\<close>.
\<close>

theorem init_empty_port_counterexample:
  "\<not> (\<forall>e p v. init e (Some p) v =
         (Inr \<lparr>verbose = v, port_name = p, serial_port = None\<rparr>, []))"
proof
  assume "\<forall>e p v. init e (Some p) v =
            (Inr \<lparr>verbose = v, port_name = p, serial_port = None\<rparr>, [])"
  then have "init quiet_env (Some []) False =
               (Inr \<lparr>verbose = False, port_name = [], serial_port = None\<rparr>, [])"
    by blast
  then show False
    by (simp add: init_def auto_detect_port_def quiet_env_def)
qed

text \<open>
  Claim C7 as amended: for every non-empty port the constructor returns the controller
  for exactly that port with no effect at all (no enumeration, no classification, no
  driver check). The resolver is invoked when the port is omitted or is the empty
  string; it always starts by enumerating the ports.
\<close>

theorem init_explicit_port:
  "(p \<noteq> [] \<longrightarrow>
      init e (Some p) v = (Inr \<lparr>verbose = v, port_name = p, serial_port = None\<rparr>, []))
   \<and> init e (Some []) v = init e None v
   \<and> init e None v =
       (case auto_detect_port e of
          (Inl err, evs) \<Rightarrow> (Inl err, evs)
        | (Inr p', evs) \<Rightarrow> (Inr \<lparr>verbose = v, port_name = p', serial_port = None\<rparr>, evs))
   \<and> (\<exists>evs. snd (auto_detect_port e) = EvComports # evs)"
  by (auto simp: init_def auto_detect_port_def Let_def split: prod.splits option.splits)

theorem init_explicit_port_witness:
  "init (quiet_env\<lparr>env_ports := sample_ports\<rparr>) (Some ''COM9'') True =
     (Inr \<lparr>verbose = True, port_name = ''COM9'', serial_port = None\<rparr>, [])"
  using init_explicit_port [of "''COM9''" "quiet_env\<lparr>env_ports := sample_ports\<rparr>" True]
  by simp


subsection \<open>The connection scope\<close>

lemma still_open_append: "still_open ps (xs @ ys) = still_open (still_open ps xs) ys"
  by (induction ps xs rule: still_open.induct) simp_all

lemma send_command_connected:
  "connected c \<Longrightarrow> \<exists>s s'. serial_port c = Some s \<and> serial_port (fst (snd (send_command e c cmd))) = Some s'
       \<and> is_open s' \<and> port s' = port s"
  by (auto simp: connected_def send_command_def Let_def split: option.splits)

lemma send_command_still_open: "still_open ps (snd (snd (send_command e c cmd))) = ps"
  by (simp add: send_command_def Let_def split: option.splits)

lemma execute_action_snd:
  "snd (execute_action e c cmd) = snd (send_command e c cmd)"
  by (simp add: execute_action_def split: prod.splits sum.splits)

lemma dispatch_execute: "\<exists>cmd. dispatch act e c = execute_action e c cmd"
  by (cases act) (auto simp: dispatch_def turn_on_def turn_off_def toggle_def query_status_def)

text \<open>
  When the two buffer resets of \<^verbatim>\<open>__enter__\<close> succeed, the \<^verbatim>\<open>with\<close> block on a
  controller that is not connected ends with the connection closed and every port it
  opened closed again, whichever action is its body and whether the body returns or
  raises.
\<close>

lemma with_controller_closed:
  assumes "\<not> connected c"
    and "env_reset_input_error e = None" and "env_reset_output_error e = None"
  shows "\<not> connected (fst (snd (with_controller e c (dispatch act e))))
       \<and> still_open [] (snd (snd (with_controller e c (dispatch act e)))) = []"
proof (cases "env_open_error e (port_name c)")
  case (Some reason)
  then show ?thesis
    using assms by (simp add: with_controller_def enter_def)
next
  case None
  let ?s = "\<lparr>port = port_name c, is_open = True, in_buf = []\<rparr>"
  let ?c1 = "c\<lparr>serial_port := Some ?s\<rparr>"
  have ent: "enter e c =
      (Inr (), ?c1, [EvOpen (port_name c) BAUD_RATE True, EvResetInput, EvResetOutput])"
    using None assms(2,3) by (simp add: enter_def)
  obtain cmd where cmd: "dispatch act e ?c1 = execute_action e ?c1 cmd"
    using dispatch_execute by blast
  obtain r c2 evs2 where body: "execute_action e ?c1 cmd = (r, c2, evs2)"
    by (cases "execute_action e ?c1 cmd") auto
  have snd_eq: "snd (send_command e ?c1 cmd) = (c2, evs2)"
    using body execute_action_snd [of e ?c1 cmd] by simp
  have "connected ?c1" by (simp add: connected_def)
  from send_command_connected [OF this, of e cmd] obtain s' where
    s': "serial_port c2 = Some s'" "is_open s'" "port s' = port_name c"
    using snd_eq by auto
  have evs2: "still_open ps evs2 = ps" for ps
    using send_command_still_open [of ps e ?c1 cmd] snd_eq by simp
  have ex: "exit c2 =
      (c2\<lparr>serial_port := Some (s'\<lparr>is_open := False\<rparr>)\<rparr>, [EvClose (port_name c)])"
    using s' by (simp add: exit_def)
  have "with_controller e c (dispatch act e) =
          (r, c2\<lparr>serial_port := Some (s'\<lparr>is_open := False\<rparr>)\<rparr>,
           [EvOpen (port_name c) BAUD_RATE True, EvResetInput, EvResetOutput] @ evs2
             @ [EvClose (port_name c)])"
    by (simp add: with_controller_def ent cmd body ex)
  then show ?thesis
    by (simp add: connected_def still_open_append evs2)
qed

lemma init_result:
  "init e port_arg v = (r, evs) \<Longrightarrow>
     still_open [] evs = [] \<and> (\<forall>c. r = Inr c \<longrightarrow> \<not> connected c)"
  by (auto simp: init_def auto_detect_port_def Let_def connected_def
      split: option.splits prod.splits if_splits)

lemma main_closed_when_resets_succeed:
  assumes "env_reset_input_error e = None" and "env_reset_output_error e = None"
  shows "(case fst (snd (main e a)) of None \<Rightarrow> True | Some c' \<Rightarrow> \<not> connected c')
       \<and> still_open [] (snd (snd (main e a))) = []"
proof -
  obtain r evs where ini: "init e (arg_port a) (arg_verbose a) = (r, evs)"
    by (cases "init e (arg_port a) (arg_verbose a)") auto
  note ir = init_result [OF ini]
  show ?thesis
  proof (cases r)
    case (Inl err)
    then show ?thesis
      using ir by (simp add: main_def ini)
  next
    case (Inr c0)
    then have "\<not> connected c0" using ir by simp
    from with_controller_closed [OF this assms, of "arg_action a"] show ?thesis
      using ir Inr
      by (auto simp: main_def ini still_open_append split: prod.splits sum.splits)
  qed
qed

lemma exit_closes: "\<not> connected (fst (exit c))"
  by (simp add: exit_def connected_def split: option.splits)

lemma exit_never_opened: "serial_port c = None \<Longrightarrow> exit c = (c, [])"
  by (simp add: exit_def)


end
